theory Spec2Isabelle
  imports Complex_Main "HOL-Library.Word" "HOL-Library.Sublist" "HOL-Library.Log_Nat"
begin

section \<open>Data model of the thrust logger sketch (Calibration.ino)\<close>

subsection \<open>The C type float\<close>

text \<open>
  The sketch tests its \<open>float\<close> values with \<open>isnan\<close> and compares them with zero, so the
  model keeps the special values of the type apart: not-a-number, the two infinities and
  the negative zero. A finite value other than the negative zero is \<open>Fin q\<close>, \<open>q\<close> the
  rational number the float denotes (\<open>Fin 0\<close> is the positive zero). Every binary32 value is
  one of these, and the results of arithmetic are rounded to binary32 (\<open>b32_round\<close> below).
\<close>

datatype cfloat = NaN | PInf | NInf | NegZero | Fin rat

text \<open>\<open>isnan(v)\<close>\<close>

fun isnan :: "cfloat \<Rightarrow> bool" where
  "isnan NaN = True"
| "isnan _ = False"

text \<open>The comparison \<open>v < 0.0f\<close>: false for a NaN and for both zeros.\<close>

fun flt_zero :: "cfloat \<Rightarrow> bool" where
  "flt_zero NInf = True"
| "flt_zero (Fin q) = (q < 0)"
| "flt_zero _ = False"

text \<open>The comparison \<open>v > 0.0\<close>: false for a NaN and for both zeros.\<close>

fun fgt_zero :: "cfloat \<Rightarrow> bool" where
  "fgt_zero PInf = True"
| "fgt_zero (Fin q) = (0 < q)"
| "fgt_zero _ = False"

text \<open>The comparison \<open>v == 0\<close>: true for both zeros, false for a NaN.\<close>

fun feq_zero :: "cfloat \<Rightarrow> bool" where
  "feq_zero NegZero = True"
| "feq_zero (Fin q) = (q = 0)"
| "feq_zero _ = False"

text \<open>The comparison \<open>v != 0\<close> is the negation of \<open>v == 0\<close>, so it is true for a NaN.\<close>

definition fne_zero :: "cfloat \<Rightarrow> bool" where
  "fne_zero v = (\<not> feq_zero v)"

text \<open>The comparison \<open>v >= 0\<close>: false for a NaN, true for both zeros.\<close>

definition fge_zero :: "cfloat \<Rightarrow> bool" where
  "fge_zero v = (fgt_zero v \<or> feq_zero v)"

subsection \<open>clampZero\<close>

text \<open>
  \<^verbatim>\<open>float clampZero(float v) { if (v < 0.0f) return 0.0f; return v; }\<close>
\<close>

definition clampZero :: "cfloat \<Rightarrow> cfloat" where
  "clampZero v = (if flt_zero v then Fin 0 else v)"

subsection \<open>Machine integers and conversions\<close>

text \<open>
  \<open>unsigned long\<close> is 32 bits wide on the boards the sketch names (AVR, ESP8266, ESP32):
  \<open>millis()\<close> and the three timing globals wrap around at \<open>2 ^ 32\<close>.
\<close>

type_synonym ulong = "32 word"

text \<open>
  Rounding to binary32, to nearest with ties to even: a positive rational \<open>q\<close> with
  \<open>2 ^ e \<le> q < 2 ^ (e + 1)\<close> is rounded to a multiple of \<open>2 ^ (e - 23)\<close> (24 significant
  bits); below \<open>2 ^ - 126\<close> the step stays \<open>2 ^ - 149\<close> (subnormal values), and a result of
  \<open>2 ^ 128\<close> or more is an infinity.
\<close>

definition round_half_even :: "rat \<Rightarrow> int" where
  "round_half_even x =
     (let f = \<lfloor>x\<rfloor>; r = x - of_int f in
      if r < 1 / 2 then f else if 1 / 2 < r then f + 1 else if even f then f else f + 1)"

text \<open>For \<open>q > 0\<close>, the integer \<open>e\<close> with \<open>2 ^ e \<le> q < 2 ^ (e + 1)\<close>.\<close>

definition floor_log2 :: "rat \<Rightarrow> int" where
  "floor_log2 q = (if 1 \<le> q then bitlen \<lfloor>q\<rfloor> - 1 else - bitlen (\<lceil>1 / q\<rceil> - 1))"

definition b32_round_pos :: "rat \<Rightarrow> cfloat" where
  "b32_round_pos q =
     (let e = max (floor_log2 q) (- 126);
          u = 2 powi (e - 23);
          v = of_int (round_half_even (q / u)) * u
      in if 2 ^ 128 \<le> v then PInf else Fin v)"

fun fneg :: "cfloat \<Rightarrow> cfloat" where
  "fneg NaN = NaN"
| "fneg PInf = NInf"
| "fneg NInf = PInf"
| "fneg NegZero = Fin 0"
| "fneg (Fin q) = (if q = 0 then NegZero else Fin (- q))"

definition b32_round :: "rat \<Rightarrow> cfloat" where
  "b32_round q =
     (if q = 0 then Fin 0 else if 0 < q then b32_round_pos q else fneg (b32_round_pos (- q)))"

text \<open>The division \<open>a / b\<close> of two floats, with the IEEE special cases.\<close>

fun finf :: "cfloat \<Rightarrow> bool" where
  "finf PInf = True"
| "finf NInf = True"
| "finf _ = False"

fun fsignbit :: "cfloat \<Rightarrow> bool" where
  "fsignbit NInf = True"
| "fsignbit NegZero = True"
| "fsignbit (Fin q) = (q < 0)"
| "fsignbit _ = False"

fun fvalue :: "cfloat \<Rightarrow> rat" where
  "fvalue (Fin q) = q"
| "fvalue _ = 0"

definition fdiv :: "cfloat \<Rightarrow> cfloat \<Rightarrow> cfloat" where
  "fdiv a b =
     (if isnan a \<or> isnan b \<or> (finf a \<and> finf b) \<or> (feq_zero a \<and> feq_zero b) then NaN
      else if finf a \<or> feq_zero b then (if fsignbit a = fsignbit b then PInf else NInf)
      else if feq_zero a \<or> finf b then (if fsignbit a = fsignbit b then Fin 0 else NegZero)
      else b32_round (fvalue a / fvalue b))"


text \<open>The conversion of an \<open>unsigned long\<close> to \<open>float\<close>.\<close>

definition float_of_ulong :: "ulong \<Rightarrow> cfloat" where
  "float_of_ulong n = b32_round (of_nat (unat n))"

text \<open>\<open>(now - startTimeMs) / 1000.0f\<close>: the elapsed milliseconds as seconds.\<close>

definition timeSec_of :: "ulong \<Rightarrow> cfloat" where
  "timeSec_of elapsed = fdiv (float_of_ulong elapsed) (Fin 1000)"

subsection \<open>The collaborators: serial channel, EEPROM library, driver\<close>

text \<open>
  What the sketch writes to \<open>Serial\<close>: \<open>Serial.print("s")\<close> is \<open>Str s\<close>,
  \<open>Serial.print(v, d)\<close> of a float with \<open>d\<close> decimals is \<open>Flt v d\<close> (\<open>d = 2\<close> when the
  sketch names none), \<open>Serial.print(n)\<close> of an \<open>int\<close> is \<open>Num n\<close>, and every \<open>println\<close>
  ends with \<open>Newline\<close>.
\<close>

datatype serial_out = Str string | Flt cfloat nat | Num int | Newline

text \<open>
  The EEPROM library is not part of the sketch: its two calls are parameters of the model,
  over any type \<open>'e\<close> of store contents. \<open>EEPROM_put a v\<close> stands for
  \<open>EEPROM.put(a, v)\<close> (followed by \<open>EEPROM.commit()\<close> on the boards that buffer writes),
  \<open>EEPROM_get a\<close> for \<open>EEPROM.get(a, v)\<close> read into a float.
\<close>

record 'e eeprom_lib =
  EEPROM_get :: "int \<Rightarrow> 'e \<Rightarrow> cfloat"
  EEPROM_put :: "int \<Rightarrow> cfloat \<Rightarrow> 'e \<Rightarrow> 'e"

definition calVal_eepromAdress :: int where
  "calVal_eepromAdress = 0"

text \<open>
  The globals of the sketch, with what it does to its collaborators: the factor the
  driver holds (\<open>LoadCell.setCalFactor\<close>, \<open>LoadCell.getCalFactor\<close>), the number of
  \<open>LoadCell.tareNoDelay()\<close> requests issued, the contents of the EEPROM and the text
  written to \<open>Serial\<close> so far.
\<close>

record 'e logger =
  startTimeMs :: ulong
  lastSampleMs :: ulong
  sampleIntervalMs :: ulong
  csvMode :: bool
  printingHeader :: bool
  calFactor :: cfloat
  tareRequests :: nat
  eeprom :: 'e
  serial :: "serial_out list"

text \<open>
  The initialisers of the globals; the EEPROM contents \<open>e\<close> and the driver's factor \<open>cf\<close>
  are what the hardware and the library hold at reset.
\<close>

definition power_on :: "'e \<Rightarrow> cfloat \<Rightarrow> 'e logger" where
  "power_on e cf =
     \<lparr>startTimeMs = 0, lastSampleMs = 0, sampleIntervalMs = 10, csvMode = False,
      printingHeader = False, calFactor = cf, tareRequests = 0, eeprom = e, serial = []\<rparr>"

definition print :: "serial_out list \<Rightarrow> 'e logger \<Rightarrow> 'e logger" where
  "print xs st = st\<lparr>serial := serial st @ xs\<rparr>"

definition setCalFactor :: "cfloat \<Rightarrow> 'e logger \<Rightarrow> 'e logger" where
  "setCalFactor v st = st\<lparr>calFactor := v\<rparr>"


text \<open>
  A busy-wait of the sketch ends only when its input arrives. The model runs a wait over
  the finite list of what its iterations observed; \<open>Still_waiting\<close> is the wait that has
  not ended when the list does.
\<close>

datatype fault = Still_waiting | Undefined_conversion

subsection \<open>Start-up: loading the saved factor\<close>

text \<open>
  The branch of the start-up routine taken when the driver reports no timeout (lines
  54 to 68): read the saved factor and hand it, or the default, to the driver.
\<close>

definition load_saved_cal :: "'e eeprom_lib \<Rightarrow> 'e logger \<Rightarrow> 'e logger" where
  "load_saved_cal E st =
     (let savedCal = EEPROM_get E calVal_eepromAdress (eeprom st) in
      print [Str ''Startup complete'', Newline]
        (if \<not> isnan savedCal \<and> fne_zero savedCal
         then print [Str ''Loaded calFactor from EEPROM: '', Flt savedCal 6, Newline]
                (setCalFactor savedCal st)
         else print [Str ''Using default calFactor = 1.0 (no EEPROM value found)'', Newline]
                (setCalFactor (Fin 1) st)))"

subsection \<open>The main loop: timed sampling\<close>

record reading =
  elapsedMs :: ulong
  force :: cfloat

definition reading_line :: "bool \<Rightarrow> cfloat \<Rightarrow> cfloat \<Rightarrow> serial_out list" where
  "reading_line csv timeSec load =
     (if csv then [Flt timeSec 3, Str '','', Flt load 2, Newline]
      else [Str ''t = '', Flt timeSec 4, Str ('' s'' @ [CHR 0x09]), Str ''Force(N) = '',
            Flt load 4, Newline])"

text \<open>
  Lines 97 to 119 of \<open>loop\<close>: \<open>now\<close> is the value of \<open>millis()\<close>, \<open>rawLoad\<close> what
  \<open>LoadCell.getData()\<close> returns when it is called. The result is the reading printed by
  this pass, if any, and the state after it.
\<close>

definition loop_sample :: "ulong \<Rightarrow> cfloat \<Rightarrow> 'e logger \<Rightarrow> reading option \<times> 'e logger" where
  "loop_sample now rawLoad st =
     (if sampleIntervalMs st \<le> now - lastSampleMs st then
        (let st1 = st\<lparr>lastSampleMs := lastSampleMs st + sampleIntervalMs st\<rparr>;
             load = clampZero rawLoad;
             elapsed = now - startTimeMs st1
         in (Some \<lparr>elapsedMs = elapsed, force = load\<rparr>,
             print (reading_line (csvMode st1) (timeSec_of elapsed) load) st1))
      else (None, st))"

text \<open>
  Successive passes of \<open>loop\<close> with no command byte pending, one per element of the
  list: the readings printed, in order, and the final state.
\<close>

fun run_samples :: "(ulong \<times> cfloat) list \<Rightarrow> 'e logger \<Rightarrow> reading list \<times> 'e logger" where
  "run_samples [] st = ([], st)"
| "run_samples ((now, rawLoad) # ps) st =
     (case loop_sample now rawLoad st of
        (r, st1) \<Rightarrow>
          (case run_samples ps st1 of
             (rs, st2) \<Rightarrow> ((case r of None \<Rightarrow> rs | Some x \<Rightarrow> x # rs), st2)))"

text \<open>
  The value of \<open>lastSampleMs\<close> after each pass that printed a reading, over the same
  passes.
\<close>

fun reference_points :: "(ulong \<times> cfloat) list \<Rightarrow> 'e logger \<Rightarrow> ulong list" where
  "reference_points [] st = []"
| "reference_points ((now, rawLoad) # ps) st =
     (case loop_sample now rawLoad st of
        (None, st1) \<Rightarrow> reference_points ps st1
      | (Some r, st1) \<Rightarrow> lastSampleMs st1 # reference_points ps st1)"

subsection \<open>The main loop: the set-frequency command\<close>



subsection \<open>The save dialog\<close>

text \<open>
  The \<open>'y'\<close> branch of the save dialog (lines 228 to 238, and again 274 to 284): write,
  read back into the same variable, report the value read back.
\<close>

definition save_to_eeprom :: "'e eeprom_lib \<Rightarrow> cfloat \<Rightarrow> 'e logger \<Rightarrow> 'e logger" where
  "save_to_eeprom E newCalibrationValue st =
     (let st1 = st\<lparr>eeprom := EEPROM_put E calVal_eepromAdress newCalibrationValue (eeprom st)\<rparr>;
          reread = EEPROM_get E calVal_eepromAdress (eeprom st1)
      in print [Str ''Value '', Flt reread 6, Str '' saved to EEPROM address: '',
                Num calVal_eepromAdress, Newline] st1)"

text \<open>
  The wait for \<open>'y'\<close> or \<open>'n'\<close> (lines 224 to 245, and again 270 to 291). Each element of
  the list is one iteration: the byte \<open>Serial.read()\<close> returned, or \<open>None\<close> when no byte
  was available.
\<close>

fun await_save_decision ::
  "'e eeprom_lib \<Rightarrow> cfloat \<Rightarrow> char option list \<Rightarrow> 'e logger \<Rightarrow> fault + 'e logger" where
  "await_save_decision E v [] st = Inl Still_waiting"
| "await_save_decision E v (rx # ps) st =
     (if rx = Some CHR ''y'' then Inr (save_to_eeprom E v st)
      else if rx = Some CHR ''n'' then Inr (print [Str ''Value not saved to EEPROM'', Newline] st)
      else await_save_decision E v ps st)"

subsection \<open>calibrate\<close>


text \<open>
  The wait for the known mass (lines 203 to 212). Each element is one iteration: what
  \<open>Serial.parseFloat()\<close> returned, or \<open>None\<close> when no byte was available.
\<close>

fun await_known_mass :: "cfloat option list \<Rightarrow> 'e logger \<Rightarrow> fault + (cfloat \<times> 'e logger)" where
  "await_known_mass [] st = Inl Still_waiting"
| "await_known_mass (None # ps) st = await_known_mass ps st"
| "await_known_mass (Some known_mass # ps) st =
     (if fne_zero known_mass
      then Inr (known_mass, print [Str ''Known mass is: '', Flt known_mass 2, Newline] st)
      else await_known_mass ps st)"



subsection \<open>changeSavedCalFactor\<close>

text \<open>
  The wait for the new factor (lines 258 to 267); the elements of the list are as in
  \<open>await_known_mass\<close>.
\<close>

fun await_new_factor :: "cfloat option list \<Rightarrow> 'e logger \<Rightarrow> fault + (cfloat \<times> 'e logger)" where
  "await_new_factor [] st = Inl Still_waiting"
| "await_new_factor (None # ps) st = await_new_factor ps st"
| "await_new_factor (Some newCalibrationValue # ps) st =
     (if fne_zero newCalibrationValue
      then Inr (newCalibrationValue,
                setCalFactor newCalibrationValue
                  (print [Str ''New calibration value is: '', Flt newCalibrationValue 6, Newline] st))
      else await_new_factor ps st)"

definition changeSavedCalFactor ::
  "'e eeprom_lib \<Rightarrow> cfloat option list \<Rightarrow> char option list \<Rightarrow> 'e logger \<Rightarrow> fault + 'e logger" where
  "changeSavedCalFactor E factor_polls answer_polls st =
     (let oldCalibrationValue = calFactor st;
          st1 = print [Str ''*** Change calibration factor'', Newline,
                       Str ''Current value is: '', Flt oldCalibrationValue 6, Newline,
                       Str ''Send the new value from serial monitor, e.g. 696.0'', Newline] st in
      case await_new_factor factor_polls st1 of
        Inl f \<Rightarrow> Inl f
      | Inr (newCalibrationValue, st2) \<Rightarrow>
          (let st3 = print [Str ''Save this value to EEPROM address '', Num calVal_eepromAdress,
                            Str ''? y/n'', Newline] st2 in
           case await_save_decision E newCalibrationValue answer_polls st3 of
             Inl f \<Rightarrow> Inl f
           | Inr st4 \<Rightarrow>
               Inr (print [Str ''End change calibration value'', Newline, Str ''***'', Newline] st4)))"

subsection \<open>A concrete bench\<close>

text \<open>
  Two stores to run the sketch on: one float-wide cell that returns what was last written
  to it, and a worn cell that no write changes. An erased cell reads as a NaN. The bench
  state is the sketch on an erased cell with the time origin set at 5000 ms, as the
  start-up routine leaves it when \<open>millis()\<close> is 5000 there.
\<close>

definition one_cell :: "cfloat eeprom_lib" where
  "one_cell = \<lparr>EEPROM_get = (\<lambda>a e. e), EEPROM_put = (\<lambda>a v e. v)\<rparr>"

definition worn_cell :: "cfloat eeprom_lib" where
  "worn_cell = \<lparr>EEPROM_get = (\<lambda>a e. e), EEPROM_put = (\<lambda>a v e. e)\<rparr>"

definition bench :: "cfloat logger" where
  "bench = (power_on NaN (Fin 1))\<lparr>startTimeMs := 5000, lastSampleMs := 5000\<rparr>"


section \<open>Properties\<close>

subsection \<open>Rounding to binary32\<close>

text \<open>
  The rounding at values whose binary32 neighbours are known: a third of a thousand, a
  tenth, the ties \<open>2 ^ 24 + 1\<close> and \<open>2 ^ 24 + 3\<close>, the overflow threshold and the smallest
  subnormal step.
\<close>

lemma b32_round_examples:
  "b32_round (1000 / 3) = Fin (10922667 / 32768)"
  "b32_round (1 / 10) = Fin (13421773 / 134217728)"
  "b32_round 16777217 = Fin 16777216"
  "b32_round 16777219 = Fin 16777220"
  "b32_round (2 ^ 128 - 2 ^ 103) = PInf"
  "b32_round (2 ^ 128 - 2 ^ 103 - 1) = Fin (2 ^ 128 - 2 ^ 104)"
  "b32_round (- (3 / 2 ^ 150)) = Fin (- (1 / 2 ^ 148))"
  "b32_round (- (1 / 2 ^ 150)) = NegZero"
  by code_simp+

subsection \<open>clampZero\<close>

lemma clampZero_idem: "clampZero (clampZero v) = clampZero v"
  by (cases v) (simp_all add: clampZero_def)

lemma clampZero_cases:
  "\<not> isnan v \<Longrightarrow> clampZero v = (if fge_zero v then v else Fin 0)"
  by (cases v) (auto simp: clampZero_def fge_zero_def)

lemma clampZero_nonneg: "\<not> isnan v \<Longrightarrow> fge_zero (clampZero v)"
  by (cases v) (auto simp: clampZero_def fge_zero_def)

subsection \<open>Loading the saved factor\<close>

text \<open>
  C4. Whatever the store holds, the factor handed to the driver at start-up is the default
  1.0 when the stored value is a NaN or equal to zero and the stored value itself
  otherwise; the line written to the serial channel names the source used (the stored
  value, printed, or the default), and the store is left as it was.
\<close>

theorem load_saved_cal_spec:
  "calFactor (load_saved_cal E st) =
     (if isnan (EEPROM_get E calVal_eepromAdress (eeprom st)) \<or>
         feq_zero (EEPROM_get E calVal_eepromAdress (eeprom st))
      then Fin 1 else EEPROM_get E calVal_eepromAdress (eeprom st)) \<and>
   serial (load_saved_cal E st) =
     serial st @
     (if isnan (EEPROM_get E calVal_eepromAdress (eeprom st)) \<or>
         feq_zero (EEPROM_get E calVal_eepromAdress (eeprom st))
      then [Str ''Using default calFactor = 1.0 (no EEPROM value found)'', Newline]
      else [Str ''Loaded calFactor from EEPROM: '',
            Flt (EEPROM_get E calVal_eepromAdress (eeprom st)) 6, Newline]) @
     [Str ''Startup complete'', Newline] \<and>
   eeprom (load_saved_cal E st) = eeprom st"
  by (simp add: load_saved_cal_def Let_def print_def setCalFactor_def fne_zero_def)

theorem load_saved_cal_spec_witness:
  "calFactor (load_saved_cal one_cell bench) = Fin 1 \<and>
   calFactor (load_saved_cal one_cell (bench\<lparr>eeprom := Fin 0\<rparr>)) = Fin 1 \<and>
   calFactor (load_saved_cal one_cell (bench\<lparr>eeprom := Fin (501 / 2)\<rparr>)) = Fin (501 / 2) \<and>
   serial (load_saved_cal one_cell (bench\<lparr>eeprom := Fin (501 / 2)\<rparr>)) =
     [Str ''Loaded calFactor from EEPROM: '', Flt (Fin (501 / 2)) 6, Newline,
      Str ''Startup complete'', Newline]"
  using load_saved_cal_spec [of one_cell bench]
    load_saved_cal_spec [of one_cell "bench\<lparr>eeprom := Fin 0\<rparr>"]
    load_saved_cal_spec [of one_cell "bench\<lparr>eeprom := Fin (501 / 2)\<rparr>"]
  by (simp add: one_cell_def bench_def power_on_def)

subsection \<open>Timed sampling\<close>

lemma loop_sample_frame:
  "sampleIntervalMs (snd (loop_sample now raw st)) = sampleIntervalMs st \<and>
   startTimeMs (snd (loop_sample now raw st)) = startTimeMs st \<and>
   eeprom (snd (loop_sample now raw st)) = eeprom st \<and>
   calFactor (snd (loop_sample now raw st)) = calFactor st"
  by (simp add: loop_sample_def Let_def print_def)

lemma loop_sample_None:
  "\<not> sampleIntervalMs st \<le> now - lastSampleMs st \<Longrightarrow> loop_sample now raw st = (None, st)"
  by (simp add: loop_sample_def)

lemma loop_sample_Some:
  "sampleIntervalMs st \<le> now - lastSampleMs st \<Longrightarrow>
   \<exists>st1. loop_sample now raw st = (Some \<lparr>elapsedMs = now - startTimeMs st, force = clampZero raw\<rparr>, st1) \<and>
     lastSampleMs st1 = lastSampleMs st + sampleIntervalMs st \<and>
     sampleIntervalMs st1 = sampleIntervalMs st \<and> startTimeMs st1 = startTimeMs st"
  by (simp add: loop_sample_def Let_def print_def)

lemma fst_run_samples_Cons:
  "fst (run_samples ((now, raw) # ps) st) =
     (case fst (loop_sample now raw st) of None \<Rightarrow> [] | Some x \<Rightarrow> [x]) @
     fst (run_samples ps (snd (loop_sample now raw st)))"
  by (simp add: split_beta split: option.splits)

lemma reference_points_Cons:
  "reference_points ((now, raw) # ps) st =
     (case fst (loop_sample now raw st) of None \<Rightarrow> []
      | Some x \<Rightarrow> [lastSampleMs (snd (loop_sample now raw st))]) @
     reference_points ps (snd (loop_sample now raw st))"
  by (simp add: split_beta split: option.splits prod.splits)

lemma reference_points_arith:
  "reference_points ps st =
     map (\<lambda>k. lastSampleMs st + of_nat (Suc k) * sampleIntervalMs st)
       [0..<length (fst (run_samples ps st))]"
proof (induction ps arbitrary: st)
  case Nil
  then show ?case by simp
next
  case (Cons p ps)
  obtain now raw where p: "p = (now, raw)" by (cases p)
  show ?case
  proof (cases "sampleIntervalMs st \<le> now - lastSampleMs st")
    case False
    then show ?thesis using Cons.IH [of st] p
      by (simp add: loop_sample_None fst_run_samples_Cons reference_points_Cons
          del: run_samples.simps reference_points.simps)
  next
    case True
    then obtain st1 where st1:
      "loop_sample now raw st = (Some \<lparr>elapsedMs = now - startTimeMs st, force = clampZero raw\<rparr>, st1)"
      "lastSampleMs st1 = lastSampleMs st + sampleIntervalMs st"
      "sampleIntervalMs st1 = sampleIntervalMs st"
      using loop_sample_Some [of st now raw] by blast
    let ?n = "length (fst (run_samples ps st1))"
    have "map (\<lambda>k. lastSampleMs st + of_nat (Suc k) * sampleIntervalMs st) [0..<Suc ?n] =
          (lastSampleMs st + sampleIntervalMs st) #
          map (\<lambda>k. lastSampleMs st1 + of_nat (Suc k) * sampleIntervalMs st1) [0..<?n]"
      by (simp add: upt_rec [of 0 "Suc ?n"] map_Suc_upt [symmetric] st1(2,3) algebra_simps
          del: upt_Suc)
    then show ?thesis using Cons.IH [of st1] p st1
      by (simp add: fst_run_samples_Cons reference_points_Cons
          del: upt_Suc run_samples.simps reference_points.simps)
  qed
qed

lemma elapsed_values:
  "\<exists>ts. subseq ts (map fst ps) \<and>
     map elapsedMs (fst (run_samples ps st)) = map (\<lambda>t. t - startTimeMs st) ts"
proof (induction ps arbitrary: st)
  case Nil
  then show ?case by simp
next
  case (Cons p ps)
  obtain now raw where p: "p = (now, raw)" by (cases p)
  show ?case
  proof (cases "sampleIntervalMs st \<le> now - lastSampleMs st")
    case False
    obtain ts where "subseq ts (map fst ps)"
      "map elapsedMs (fst (run_samples ps st)) = map (\<lambda>t. t - startTimeMs st) ts"
      using Cons.IH [of st] by blast
    then have "subseq ts (map fst (p # ps)) \<and>
      map elapsedMs (fst (run_samples (p # ps) st)) = map (\<lambda>t. t - startTimeMs st) ts"
      using False p
      by (simp add: loop_sample_None fst_run_samples_Cons list_emb_Cons del: run_samples.simps)
    then show ?thesis by blast
  next
    case True
    then obtain st1 where st1:
      "loop_sample now raw st = (Some \<lparr>elapsedMs = now - startTimeMs st, force = clampZero raw\<rparr>, st1)"
      "startTimeMs st1 = startTimeMs st"
      using loop_sample_Some [of st now raw] by blast
    obtain ts where "subseq ts (map fst ps)"
      "map elapsedMs (fst (run_samples ps st1)) = map (\<lambda>t. t - startTimeMs st1) ts"
      using Cons.IH [of st1] by blast
    then have "subseq (now # ts) (map fst (p # ps)) \<and>
      map elapsedMs (fst (run_samples (p # ps) st)) = map (\<lambda>t. t - startTimeMs st) (now # ts)"
      using p st1 by (simp add: fst_run_samples_Cons del: run_samples.simps)
    then show ?thesis by blast
  qed
qed

text \<open>
  C1, as the sketch has it. For every sequence of passes with a fixed sample interval
  \<open>I\<close>, the schedule's reference point \<open>lastSampleMs\<close> after the readings printed is the
  arithmetic sequence \<open>lastSampleMs + I\<close>, \<open>lastSampleMs + 2 * I\<close>, ... (modulo \<open>2 ^ 32\<close>),
  however irregularly the passes arrive. The elapsed time attached to a reading is not taken
  from that schedule: it is \<open>now - startTimeMs\<close> for the pass that printed it, so the
  elapsed values are the times, in order, of a subsequence of the passes.
\<close>

theorem schedule_no_drift:
  "reference_points ps st =
     map (\<lambda>k. lastSampleMs st + of_nat (Suc k) * sampleIntervalMs st)
       [0..<length (fst (run_samples ps st))] \<and>
   (\<exists>ts. subseq ts (map fst ps) \<and>
      map elapsedMs (fst (run_samples ps st)) = map (\<lambda>t. t - startTimeMs st) ts)"
  using reference_points_arith [of ps st] elapsed_values [of ps st] by blast

theorem schedule_no_drift_witness:
  "reference_points [(5013, Fin 1), (5020, Fin 1)] bench = [5010, 5020]"
  using schedule_no_drift [of "[(5013, Fin 1), (5020, Fin 1)]" bench]
  by (simp add: bench_def power_on_def loop_sample_def print_def Let_def)

text \<open>
  The claim as written fails: with the default interval of 10 ms, passes 13 ms and 20 ms
  after the time origin both print, and the elapsed values 13 and 20 differ by 7.
\<close>

theorem elapsed_not_arithmetic_counterexample:
  "sampleIntervalMs bench = 10 \<and>
   map elapsedMs (fst (run_samples [(5013, Fin 1), (5020, Fin 1)] bench)) = [13, 20] \<and>
   (20 :: ulong) - 13 \<noteq> 10"
  by (simp add: bench_def power_on_def loop_sample_def print_def Let_def)

lemma unat_backlog:
  fixes a d i :: ulong
  assumes "unat i * 2 \<le> unat a" "unat a + unat d < 2 ^ 32"
  shows "i \<le> a + d - i"
proof -
  have ia: "i \<le> a" using assms(1) by (simp add: word_le_nat_alt)
  have ad: "unat (a + d) = unat a + unat d"
    using assms(2) by (simp add: unat_add_lem [THEN iffD1])
  have "i \<le> a + d" using ia ad by (simp add: word_le_nat_alt)
  then have "unat (a + d - i) = unat (a + d) - unat i" by (simp add: unat_sub)
  then show ?thesis using assms(1) ad by (simp add: word_le_nat_alt)
qed

text \<open>
  C2, as the sketch has it. A pass prints (one reading at most) exactly when at least one
  interval has elapsed since the reference point, and then the reference point advances by
  exactly one interval, never to the current time. Intervals missed while no pass ran are
  not skipped: when two or more intervals have elapsed, the next pass prints again,
  whatever time \<open>d\<close> has gone by since (as long as the backlog \<open>now - lastSampleMs\<close> has
  not wrapped around).
\<close>

theorem loop_sample_backlog:
  "(fst (loop_sample now raw st) \<noteq> None \<longleftrightarrow> sampleIntervalMs st \<le> now - lastSampleMs st) \<and>
   lastSampleMs (snd (loop_sample now raw st)) =
     (if sampleIntervalMs st \<le> now - lastSampleMs st
      then lastSampleMs st + sampleIntervalMs st else lastSampleMs st) \<and>
   (unat (sampleIntervalMs st) * 2 \<le> unat (now - lastSampleMs st) \<and>
    unat (now - lastSampleMs st) + unat d < 2 ^ 32 \<longrightarrow>
      fst (loop_sample (now + d) raw' (snd (loop_sample now raw st))) \<noteq> None)"
proof -
  have "sampleIntervalMs st \<le> now + d - (lastSampleMs st + sampleIntervalMs st)"
    if "unat (sampleIntervalMs st) * 2 \<le> unat (now - lastSampleMs st)"
      "unat (now - lastSampleMs st) + unat d < 2 ^ 32"
  proof -
    have eq: "now + d - (lastSampleMs st + sampleIntervalMs st) =
        (now - lastSampleMs st) + d - sampleIntervalMs st"
      by simp
    show ?thesis unfolding eq using that by (rule unat_backlog)
  qed
  moreover have "sampleIntervalMs st \<le> now - lastSampleMs st"
    if "unat (sampleIntervalMs st) * 2 \<le> unat (now - lastSampleMs st)"
    using that by (simp add: word_le_nat_alt)
  ultimately show ?thesis
    by (auto simp add: loop_sample_def Let_def print_def)
qed

theorem loop_sample_backlog_witness:
  "fst (loop_sample 5100 (Fin 1) bench) \<noteq> None \<and>
   lastSampleMs (snd (loop_sample 5100 (Fin 1) bench)) = 5010 \<and>
   fst (loop_sample 5101 (Fin 1) (snd (loop_sample 5100 (Fin 1) bench))) \<noteq> None"
  using loop_sample_backlog [of 5100 "Fin 1" bench 1 "Fin 1"]
  by (simp add: bench_def power_on_def)

text \<open>
  The claim as written fails: after 100 ms without a pass, three passes one millisecond
  apart print three readings although the interval is 10 ms, and the reference point is
  still 70 ms behind.
\<close>

theorem catch_up_burst_counterexample:
  "sampleIntervalMs bench = 10 \<and>
   map elapsedMs (fst (run_samples [(5100, Fin 1), (5101, Fin 1), (5102, Fin 1)] bench)) = [100, 101, 102] \<and>
   lastSampleMs (snd (run_samples [(5100, Fin 1), (5101, Fin 1), (5102, Fin 1)] bench)) = 5030"
  by (simp add: bench_def power_on_def loop_sample_def print_def Let_def)

subsection \<open>Emitted readings\<close>

lemma loop_sample_reading:
  "fst (loop_sample now raw st) = Some r \<Longrightarrow>
   elapsedMs r = now - startTimeMs st \<and> force r = clampZero raw \<and>
   serial (snd (loop_sample now raw st)) =
     serial st @ reading_line (csvMode st) (timeSec_of (elapsedMs r)) (force r)"
  by (auto simp: loop_sample_def Let_def print_def split: if_splits)

lemma run_samples_force:
  "r \<in> set (fst (run_samples ps st)) \<Longrightarrow> \<exists>p\<in>set ps. force r = clampZero (snd p)"
proof (induction ps arbitrary: st)
  case Nil
  then show ?case by simp
next
  case (Cons p ps)
  obtain now raw where p: "p = (now, raw)" by (cases p)
  from Cons.prems p consider
    (head) "fst (loop_sample now raw st) = Some r"
    | (tail) "r \<in> set (fst (run_samples ps (snd (loop_sample now raw st))))"
    by (auto simp: fst_run_samples_Cons simp del: run_samples.simps split: option.splits)
  then show ?case
  proof cases
    case head
    then have "force r = clampZero raw" using loop_sample_reading by blast
    then show ?thesis using p by simp
  next
    case tail
    then show ?thesis using Cons.IH by auto
  qed
qed

text \<open>
  C9, as the sketch has it. For every input \<open>x\<close> that is not a NaN, \<open>clampZero x\<close> is \<open>x\<close>
  when \<open>x >= 0\<close> and the positive zero otherwise, so the clamped value is \<open>>= 0\<close>; a NaN
  is returned as it is (the test \<open>v < 0.0f\<close> is false for it); and for every \<open>x\<close>, NaN
  included, clamping twice gives the same value as clamping once. The load of a reading
  that a pass of \<open>loop\<close> prints is the clamped value of what the driver returned, in the
  reading and in the line written to the serial channel, so over any sequence of passes
  every reading printed whose load is not a NaN has a load \<open>>= 0\<close>.
\<close>

theorem clampZero_spec:
  "(\<not> isnan x \<longrightarrow> clampZero x = (if fge_zero x then x else Fin 0) \<and> fge_zero (clampZero x)) \<and>
   (isnan x \<longrightarrow> clampZero x = x) \<and>
   clampZero (clampZero x) = clampZero x \<and>
   (fst (loop_sample now x st) = Some r \<longrightarrow>
      force r = clampZero x \<and>
      serial (snd (loop_sample now x st)) =
        serial st @ reading_line (csvMode st) (timeSec_of (now - startTimeMs st)) (clampZero x)) \<and>
   (\<forall>r\<in>set (fst (run_samples ps st)). \<not> isnan (force r) \<longrightarrow> fge_zero (force r))"
proof -
  have n: "isnan x \<Longrightarrow> clampZero x = x"
    by (cases x) (simp_all add: clampZero_def)
  have nn: "fge_zero (clampZero v)" if "\<not> isnan (clampZero v)" for v
    using that by (cases v) (auto simp: clampZero_def fge_zero_def)
  have e: "\<forall>r\<in>set (fst (run_samples ps st)). \<not> isnan (force r) \<longrightarrow> fge_zero (force r)"
  proof (intro ballI impI)
    fix r assume "r \<in> set (fst (run_samples ps st))" "\<not> isnan (force r)"
    then show "fge_zero (force r)" using run_samples_force [of r ps st] nn by auto
  qed
  have l: "fst (loop_sample now x st) = Some r \<longrightarrow>
      force r = clampZero x \<and>
      serial (snd (loop_sample now x st)) =
        serial st @ reading_line (csvMode st) (timeSec_of (now - startTimeMs st)) (clampZero x)"
    using loop_sample_reading [of now x st r] by auto
  show ?thesis
    using n clampZero_cases [of x] clampZero_nonneg [of x] clampZero_idem [of x] e l
    by (intro conjI impI) auto
qed

theorem clampZero_spec_witness:
  "clampZero (Fin (- 3)) = Fin 0 \<and> fge_zero (clampZero (Fin (- 3))) \<and>
   clampZero (Fin (5 / 2)) = Fin (5 / 2) \<and>
   clampZero (clampZero (Fin (- 3))) = clampZero (Fin (- 3)) \<and>
   map force (fst (run_samples [(5010, Fin (- 3)), (5013, Fin 7), (5020, Fin (5 / 2))] bench)) =
     [Fin 0, Fin (5 / 2)] \<and>
   list_all (\<lambda>r. fge_zero (force r))
     (fst (run_samples [(5010, Fin (- 3)), (5013, Fin 7), (5020, Fin (5 / 2))] bench))"
  using clampZero_spec [where x = "Fin (- 3)" and now = 5010 and st = bench
      and r = "\<lparr>elapsedMs = 10, force = Fin 0\<rparr>"
      and ps = "[(5010, Fin (- 3)), (5013, Fin 7), (5020, Fin (5 / 2))]"]
    clampZero_spec [where x = "Fin (5 / 2)" and now = 5020 and st = bench
      and r = "\<lparr>elapsedMs = 20, force = Fin (5 / 2)\<rparr>" and ps = "[]"]
  by (simp add: fge_zero_def clampZero_def bench_def power_on_def loop_sample_def Let_def
      print_def)

text \<open>
  The claim as written fails at a NaN: it is not \<open>>= 0\<close>, yet it is not clamped to zero,
  and the reading the sketch prints for it has a load that is not \<open>>= 0\<close>.
\<close>

theorem clampZero_nan_counterexample:
  "\<not> fge_zero NaN \<and> clampZero NaN = NaN \<and> \<not> feq_zero (clampZero NaN) \<and>
   \<not> fge_zero (clampZero NaN) \<and>
   map force (fst (run_samples [(5010, NaN)] bench)) = [NaN]"
  by (simp add: clampZero_def fge_zero_def bench_def power_on_def loop_sample_def Let_def
      print_def)

subsection \<open>The set-frequency command\<close>
























subsection \<open>The waits of the dialogs\<close>


lemma await_known_mass_Inr:
  "await_known_mass ps st = Inr (m, st') \<Longrightarrow>
   fne_zero m \<and> st' = print [Str ''Known mass is: '', Flt m 2, Newline] st \<and>
   (\<exists>pre post. ps = pre @ Some m # post \<and>
      (\<forall>p\<in>set pre. p = None \<or> (\<exists>v. p = Some v \<and> feq_zero v)))"
proof (induction ps st rule: await_known_mass.induct)
  case (1 st)
  then show ?case by simp
next
  case (2 ps st)
  then obtain pre post where "ps = pre @ Some m # post"
    "\<forall>p\<in>set pre. p = None \<or> (\<exists>v. p = Some v \<and> feq_zero v)"
    and *: "fne_zero m" "st' = print [Str ''Known mass is: '', Flt m 2, Newline] st"
    by auto
  then have "None # ps = (None # pre) @ Some m # post \<and>
    (\<forall>p\<in>set (None # pre). p = None \<or> (\<exists>v. p = Some v \<and> feq_zero v))" by simp
  with * show ?case by blast
next
  case (3 known_mass ps st)
  show ?case
  proof (cases "fne_zero known_mass")
    case True
    with 3(2) have "Some known_mass # ps = [] @ Some m # ps \<and>
      (\<forall>p\<in>set []. p = None \<or> (\<exists>v. p = Some v \<and> feq_zero v))" 
      and *: "fne_zero m" "st' = print [Str ''Known mass is: '', Flt m 2, Newline] st"
      by auto
    then show ?thesis by blast
  next
    case False
    with 3 obtain pre post where "ps = pre @ Some m # post"
      "\<forall>p\<in>set pre. p = None \<or> (\<exists>v. p = Some v \<and> feq_zero v)"
      and *: "fne_zero m" "st' = print [Str ''Known mass is: '', Flt m 2, Newline] st"
      by auto
    with False have "Some known_mass # ps = (Some known_mass # pre) @ Some m # post \<and>
      (\<forall>p\<in>set (Some known_mass # pre). p = None \<or> (\<exists>v. p = Some v \<and> feq_zero v))"
      by (simp add: fne_zero_def)
    with * show ?thesis by blast
  qed
qed

lemma await_new_factor_Inr:
  "await_new_factor ps st = Inr (m, st') \<Longrightarrow>
   fne_zero m \<and>
   st' = setCalFactor m (print [Str ''New calibration value is: '', Flt m 6, Newline] st) \<and>
   (\<exists>pre post. ps = pre @ Some m # post \<and>
      (\<forall>p\<in>set pre. p = None \<or> (\<exists>v. p = Some v \<and> feq_zero v)))"
proof (induction ps st rule: await_new_factor.induct)
  case (1 st)
  then show ?case by simp
next
  case (2 ps st)
  then obtain pre post where "ps = pre @ Some m # post"
    "\<forall>p\<in>set pre. p = None \<or> (\<exists>v. p = Some v \<and> feq_zero v)"
    and *: "fne_zero m"
      "st' = setCalFactor m (print [Str ''New calibration value is: '', Flt m 6, Newline] st)"
    by auto
  then have "None # ps = (None # pre) @ Some m # post \<and>
    (\<forall>p\<in>set (None # pre). p = None \<or> (\<exists>v. p = Some v \<and> feq_zero v))" by simp
  with * show ?case by blast
next
  case (3 newCalibrationValue ps st)
  show ?case
  proof (cases "fne_zero newCalibrationValue")
    case True
    with 3(2) have "Some newCalibrationValue # ps = [] @ Some m # ps \<and>
      (\<forall>p\<in>set []. p = None \<or> (\<exists>v. p = Some v \<and> feq_zero v))" 
      and *: "fne_zero m"
        "st' = setCalFactor m (print [Str ''New calibration value is: '', Flt m 6, Newline] st)"
      by auto
    then show ?thesis by blast
  next
    case False
    with 3 obtain pre post where "ps = pre @ Some m # post"
      "\<forall>p\<in>set pre. p = None \<or> (\<exists>v. p = Some v \<and> feq_zero v)"
      and *: "fne_zero m"
        "st' = setCalFactor m (print [Str ''New calibration value is: '', Flt m 6, Newline] st)"
      by auto
    with False have "Some newCalibrationValue # ps = (Some newCalibrationValue # pre) @ Some m # post \<and>
      (\<forall>p\<in>set (Some newCalibrationValue # pre). p = None \<or> (\<exists>v. p = Some v \<and> feq_zero v))"
      by (simp add: fne_zero_def)
    with * show ?thesis by blast
  qed
qed


lemma await_save_decision_n:
  "\<forall>p\<in>set pre. p \<noteq> Some CHR ''y'' \<and> p \<noteq> Some CHR ''n'' \<Longrightarrow>
   await_save_decision E v (pre @ Some CHR ''n'' # post) st =
     Inr (print [Str ''Value not saved to EEPROM'', Newline] st)"
  by (induction pre) simp_all

lemma await_new_factor_accept:
  "\<forall>p\<in>set pre. p = None \<or> (\<exists>z. p = Some z \<and> feq_zero z) \<Longrightarrow> fne_zero v \<Longrightarrow>
   await_new_factor (pre @ Some v # post) st =
     Inr (v, setCalFactor v (print [Str ''New calibration value is: '', Flt v 6, Newline] st))"
proof (induction pre)
  case Nil
  then show ?case by simp
next
  case (Cons p pre)
  then show ?case by (cases p) (auto simp: fne_zero_def)
qed

lemma await_known_mass_accept:
  "\<forall>p\<in>set pre. p = None \<or> (\<exists>z. p = Some z \<and> feq_zero z) \<Longrightarrow> fne_zero v \<Longrightarrow>
   await_known_mass (pre @ Some v # post) st =
     Inr (v, print [Str ''Known mass is: '', Flt v 2, Newline] st)"
proof (induction pre)
  case Nil
  then show ?case by simp
next
  case (Cons p pre)
  then show ?case by (cases p) (auto simp: fne_zero_def)
qed

lemma await_number_waiting:
  "\<forall>p\<in>set ps. p = None \<or> (\<exists>z. p = Some z \<and> feq_zero z) \<Longrightarrow>
   await_known_mass ps st = Inl Still_waiting \<and> await_new_factor ps st = Inl Still_waiting"
proof (induction ps)
  case Nil
  then show ?case by simp
next
  case (Cons p ps)
  then show ?case by (cases p) (auto simp: fne_zero_def)
qed

subsection \<open>calibrate\<close>



subsection \<open>The number entries\<close>

text \<open>
  C8, as the sketch has it. Both number entries test \<open>!= 0\<close>: a value equal to zero is
  not accepted, nothing is changed or printed and the wait goes on with the next
  iteration, so a wait that has seen only zeros and iterations without input is still
  waiting. Every value that is not zero, negative ones included, is accepted: the first
  such value ends the wait as the known mass, and in the direct entry it is handed to
  the driver. A wait that ends has ended so.
\<close>

theorem zero_entry_rejected:
  "(feq_zero z \<longrightarrow>
      await_known_mass (Some z # ps) st = await_known_mass ps st \<and>
      await_new_factor (Some z # ps) st = await_new_factor ps st) \<and>
   ((\<forall>p\<in>set ps. p = None \<or> (\<exists>v. p = Some v \<and> feq_zero v)) \<longrightarrow>
      await_known_mass ps st = Inl Still_waiting \<and>
      await_new_factor ps st = Inl Still_waiting \<and>
      (fne_zero z \<longrightarrow>
         await_known_mass (ps @ Some z # post) st =
           Inr (z, print [Str ''Known mass is: '', Flt z 2, Newline] st) \<and>
         await_new_factor (ps @ Some z # post) st =
           Inr (z, setCalFactor z
                     (print [Str ''New calibration value is: '', Flt z 6, Newline] st)))) \<and>
   (await_known_mass ps st = Inr (m, st') \<longrightarrow>
      fne_zero m \<and> st' = print [Str ''Known mass is: '', Flt m 2, Newline] st \<and>
      (\<exists>pre post. ps = pre @ Some m # post \<and>
         (\<forall>p\<in>set pre. p = None \<or> (\<exists>v. p = Some v \<and> feq_zero v)))) \<and>
   (await_new_factor ps st = Inr (m, st') \<longrightarrow>
      fne_zero m \<and>
      st' = setCalFactor m (print [Str ''New calibration value is: '', Flt m 6, Newline] st) \<and>
      (\<exists>pre post. ps = pre @ Some m # post \<and>
         (\<forall>p\<in>set pre. p = None \<or> (\<exists>v. p = Some v \<and> feq_zero v))))"
proof -
  have 1: "feq_zero z \<longrightarrow>
      await_known_mass (Some z # ps) st = await_known_mass ps st \<and>
      await_new_factor (Some z # ps) st = await_new_factor ps st"
    by (simp add: fne_zero_def)
  have 2: "(\<forall>p\<in>set ps. p = None \<or> (\<exists>v. p = Some v \<and> feq_zero v)) \<longrightarrow>
      await_known_mass ps st = Inl Still_waiting \<and>
      await_new_factor ps st = Inl Still_waiting \<and>
      (fne_zero z \<longrightarrow>
         await_known_mass (ps @ Some z # post) st =
           Inr (z, print [Str ''Known mass is: '', Flt z 2, Newline] st) \<and>
         await_new_factor (ps @ Some z # post) st =
           Inr (z, setCalFactor z
                     (print [Str ''New calibration value is: '', Flt z 6, Newline] st)))"
    using await_number_waiting [of ps st] await_known_mass_accept [of ps z post st]
      await_new_factor_accept [of ps z post st]
    by blast
  show ?thesis
    using 1 2 await_known_mass_Inr [of ps st m st'] await_new_factor_Inr [of ps st m st']
    by (intro conjI impI) blast+
qed

theorem zero_entry_rejected_witness:
  "await_known_mass [Some (Fin 0), Some NegZero, None] bench = Inl Still_waiting \<and>
   await_known_mass [Some (Fin 0), Some NegZero, None, Some (Fin 100)] bench =
     Inr (Fin 100, bench\<lparr>serial := [Str ''Known mass is: '', Flt (Fin 100) 2, Newline]\<rparr>) \<and>
   await_new_factor [Some (Fin 0), Some NegZero, None, Some (Fin (- 696))] bench =
     Inr (Fin (- 696),
          bench\<lparr>calFactor := Fin (- 696),
                serial := [Str ''New calibration value is: '', Flt (Fin (- 696)) 6, Newline]\<rparr>)"
proof -
  have z: "\<forall>p\<in>set [Some (Fin 0), Some NegZero, None]. p = None \<or> (\<exists>v. p = Some v \<and> feq_zero v)"
    by simp
  have a: "fne_zero (Fin 100)" "fne_zero (Fin (- 696))" by (simp_all add: fne_zero_def)
  note m = zero_entry_rejected [where z = "Fin 100" and st = bench and post = "[]"
        and ps = "[Some (Fin 0), Some NegZero, None]", THEN conjunct2, THEN conjunct1,
        THEN mp, OF z]
  note f = zero_entry_rejected [where z = "Fin (- 696)" and st = bench and post = "[]"
        and ps = "[Some (Fin 0), Some NegZero, None]", THEN conjunct2, THEN conjunct1,
        THEN mp, OF z]
  have 1: "await_known_mass [Some (Fin 0), Some NegZero, None] bench = Inl Still_waiting"
    using m by (rule conjunct1)
  have 2: "await_known_mass ([Some (Fin 0), Some NegZero, None] @ Some (Fin 100) # []) bench =
      Inr (Fin 100, print [Str ''Known mass is: '', Flt (Fin 100) 2, Newline] bench)"
    using m [THEN conjunct2, THEN conjunct2, THEN mp, OF a(1)] by (rule conjunct1)
  have 3: "await_new_factor ([Some (Fin 0), Some NegZero, None] @ Some (Fin (- 696)) # []) bench =
      Inr (Fin (- 696), setCalFactor (Fin (- 696))
             (print [Str ''New calibration value is: '', Flt (Fin (- 696)) 6, Newline] bench))"
    using f [THEN conjunct2, THEN conjunct2, THEN mp, OF a(2)] by (rule conjunct2)
  have p: "print xs bench = bench\<lparr>serial := xs\<rparr>" for xs
    by (simp add: print_def bench_def power_on_def)
  have "([Some (Fin 0), Some NegZero, None] @ Some v # []) =
      [Some (Fin 0), Some NegZero, None, Some v]" for v :: cfloat
    by simp
  then show ?thesis using 1 2 3 by (simp only: p setCalFactor_def) simp
qed

text \<open>
  The claim as written fails for a negative value: \<open>-5\<close> is not positive, yet it ends the
  mass wait as the known mass, and ends the factor wait as the driver's new factor.
\<close>

theorem negative_entry_counterexample:
  "\<not> fgt_zero (Fin (- 5)) \<and>
   await_known_mass [Some (Fin (- 5))] bench =
     Inr (Fin (- 5), bench\<lparr>serial := [Str ''Known mass is: '', Flt (Fin (- 5)) 2, Newline]\<rparr>) \<and>
   await_new_factor [Some (Fin (- 5))] bench =
     Inr (Fin (- 5),
          bench\<lparr>calFactor := Fin (- 5),
                serial := [Str ''New calibration value is: '', Flt (Fin (- 5)) 6, Newline]\<rparr>)"
  by (simp add: fne_zero_def bench_def power_on_def print_def setCalFactor_def)

subsection \<open>Saving and loading\<close>

text \<open>
  C5. On a store that returns at the sketch's address what was last written there, saving
  a finite factor \<open>f\<close> other than zero and then loading hands \<open>f\<close> back to the driver.
  On any store, the \<open>y\<close> branch of the save dialog writes the value, reads the address
  back and reports the value read back.
\<close>

theorem save_load_roundtrip:
  "((\<forall>e. EEPROM_get E calVal_eepromAdress (EEPROM_put E calVal_eepromAdress (Fin q) e) = Fin q) \<and>
    q \<noteq> 0 \<longrightarrow>
      calFactor (load_saved_cal E (save_to_eeprom E (Fin q) st)) = Fin q) \<and>
   eeprom (save_to_eeprom E v st) = EEPROM_put E calVal_eepromAdress v (eeprom st) \<and>
   serial (save_to_eeprom E v st) =
     serial st @
     [Str ''Value '',
      Flt (EEPROM_get E calVal_eepromAdress (eeprom (save_to_eeprom E v st))) 6,
      Str '' saved to EEPROM address: '', Num calVal_eepromAdress, Newline] \<and>
   await_save_decision E v (Some CHR ''y'' # ps) st = Inr (save_to_eeprom E v st)"
  by (simp add: load_saved_cal_def save_to_eeprom_def Let_def print_def setCalFactor_def
      fne_zero_def)

text \<open>
  On the worn cell the value reported after saving 7 is the NaN read back, not the 7 passed
  in.
\<close>

theorem save_load_roundtrip_witness:
  "calFactor (load_saved_cal one_cell (save_to_eeprom one_cell (Fin (501 / 2)) bench)) =
     Fin (501 / 2) \<and>
   eeprom (save_to_eeprom worn_cell (Fin 7) bench) = NaN \<and>
   serial (save_to_eeprom worn_cell (Fin 7) bench) =
     [Str ''Value '', Flt NaN 6, Str '' saved to EEPROM address: '', Num 0, Newline]"
  using save_load_roundtrip [of one_cell "501 / 2" bench "Fin 1" "[]"]
    save_load_roundtrip [of worn_cell 1 bench "Fin 7" "[]"]
  by (simp add: one_cell_def worn_cell_def bench_def power_on_def calVal_eepromAdress_def)

subsection \<open>changeSavedCalFactor\<close>

text \<open>
  C10. In the direct entry the first number that is not zero is handed to the driver with
  \<open>setCalFactor\<close> when the first wait ends, whatever is answered afterwards: while no
  \<open>y\<close> or \<open>n\<close> has arrived the command is still waiting, and when the answer is \<open>n\<close> the
  command ends with the new factor in the driver, the EEPROM contents and every global
  as before, and the serial output showing the new value before the save question.
\<close>

theorem changeSavedCalFactor_discard:
  assumes "\<forall>p\<in>set fpre. p = None \<or> (\<exists>z. p = Some z \<and> feq_zero z)"
    and "fne_zero v"
    and "\<forall>p\<in>set dpre. p \<noteq> Some CHR ''y'' \<and> p \<noteq> Some CHR ''n''"
  shows "(\<exists>st2. await_new_factor (fpre @ Some v # fpost) st1 = Inr (v, st2) \<and>
            calFactor st2 = v \<and> eeprom st2 = eeprom st1) \<and>
         changeSavedCalFactor E (fpre @ Some v # fpost) (dpre @ Some CHR ''n'' # dpost) st =
           Inr (st\<lparr>calFactor := v,
                    serial := serial st @
                      [Str ''*** Change calibration factor'', Newline,
                       Str ''Current value is: '', Flt (calFactor st) 6, Newline,
                       Str ''Send the new value from serial monitor, e.g. 696.0'', Newline,
                       Str ''New calibration value is: '', Flt v 6, Newline,
                       Str ''Save this value to EEPROM address '', Num calVal_eepromAdress,
                       Str ''? y/n'', Newline,
                       Str ''Value not saved to EEPROM'', Newline,
                       Str ''End change calibration value'', Newline, Str ''***'', Newline]\<rparr>) \<and>
         changeSavedCalFactor E (fpre @ Some v # fpost) dpre st = Inl Still_waiting"
proof -
  have w: "await_save_decision E v dpre s = Inl Still_waiting" for s
    using assms(3) by (induction dpre) simp_all
  show ?thesis
    by (simp add: changeSavedCalFactor_def Let_def await_new_factor_accept [OF assms(1,2)]
        await_save_decision_n [OF assms(3)] w)
      (simp add: print_def setCalFactor_def)
qed

theorem changeSavedCalFactor_discard_witness:
  "changeSavedCalFactor one_cell [None, Some (Fin 0), Some (Fin 696)] [Some CHR ''x'', Some CHR ''n'']
     bench =
     Inr (bench\<lparr>calFactor := Fin 696,
                serial :=
                      [Str ''*** Change calibration factor'', Newline,
                       Str ''Current value is: '', Flt (Fin 1) 6, Newline,
                       Str ''Send the new value from serial monitor, e.g. 696.0'', Newline,
                       Str ''New calibration value is: '', Flt (Fin 696) 6, Newline,
                       Str ''Save this value to EEPROM address '', Num 0,
                       Str ''? y/n'', Newline,
                       Str ''Value not saved to EEPROM'', Newline,
                       Str ''End change calibration value'', Newline, Str ''***'', Newline]\<rparr>) \<and>
   changeSavedCalFactor one_cell [None, Some (Fin 0), Some (Fin 696)] [Some CHR ''x''] bench =
     Inl Still_waiting"
proof -
  have 1: "\<forall>p\<in>set [None, Some (Fin 0)]. p = None \<or> (\<exists>z. p = Some z \<and> feq_zero z)" by simp
  have 2: "fne_zero (Fin 696)" by (simp add: fne_zero_def)
  have 3: "\<forall>p\<in>set [Some CHR ''x'']. p \<noteq> Some CHR ''y'' \<and> p \<noteq> Some CHR ''n''" by simp
  show ?thesis
    using changeSavedCalFactor_discard [OF 1 2 3, of "[]" bench one_cell "[]" bench]
    by (simp add: bench_def power_on_def calVal_eepromAdress_def)
qed

end
